theory Spec2Isabelle
  imports Main
begin

section \<open>GiggleGram: a shallow embedding of \<^verbatim>\<open>src/app.js\<close>\<close>

text \<open>
  The script is one module (\<^verbatim>\<open>GiggleGramApp\<close>) holding a configuration object, a cache of
  DOM elements and the functions \<^verbatim>\<open>displayScreen\<close>, \<^verbatim>\<open>showNewJoke\<close>, \<^verbatim>\<open>showNewQuote\<close> and
  \<^verbatim>\<open>handleFunnyButtonClick\<close>, which the embedding keeps under their names.
  \<^verbatim>\<open>bindEventListeners\<close> only binds them to clicks; the one binding that the development
  uses, of \<^verbatim>\<open>handleFunnyButtonClick\<close> to every click of the button, is in \<open>step\<close>.

  What lies outside the script is made explicit:
  \<^item> the page: every id of the DOM cache resolves to an element of its own, so the elements
    are the constructors of a datatype and the part of each element the script touches is
    a field of the state;
  \<^item> the network: what \<^verbatim>\<open>fetch\<close> and \<^verbatim>\<open>response.json()\<close> settle to is an input
    (\<open>fetch_outcome\<close>), and each call of \<^verbatim>\<open>fetch\<close> is recorded in the state;
  \<^item> time: \<^verbatim>\<open>setTimeout\<close> appends to a list of pending timers, and a simulated clock
    runs the callbacks that are due;
  \<^item> strings are byte strings (UTF-8); the script never measures or indexes a label.
\<close>

subsection \<open>Numbers to text\<close>

text \<open>\<^verbatim>\<open>${response.status}\<close>: the decimal digits of a status code.\<close>

definition digit_char :: "nat \<Rightarrow> char" where
  "digit_char d = char_of (of_char (CHR ''0'') + d)"

fun string_of_nat :: "nat \<Rightarrow> string" where
  "string_of_nat n =
     (if n < 10 then [digit_char n] else string_of_nat (n div 10) @ [digit_char (n mod 10)])"

declare string_of_nat.simps [simp del]

subsection \<open>Error objects\<close>

text \<open>
  A thrown value: an error object with its \<^verbatim>\<open>name\<close> and its \<^verbatim>\<open>message\<close>.
  \<^verbatim>\<open>new Error(m)\<close> is \<open>Error m\<close>.
\<close>

datatype js_error = JsError (name: string) (message: string)

definition Error :: "string \<Rightarrow> js_error" where
  "Error m = JsError ''Error'' m"

definition TypeError :: "string \<Rightarrow> js_error" where
  "TypeError m = JsError ''TypeError'' m"

subsection \<open>Parsed JSON and property reads\<close>

text \<open>
  What \<^verbatim>\<open>response.json()\<close> yields. A number is kept as the text that JavaScript prints for
  it, the only thing the script does with a number. The members of an object are listed
  in the order of the body; a later member hides an earlier one of the same name.
  \<^verbatim>\<open>undefined\<close> is no JSON value: a value that may be undefined is a \<open>json option\<close>.
\<close>

datatype json =
    JNull
  | JBool bool
  | JNum string
  | JStr string
  | JArr "json list"
  | JObj "(string \<times> json) list"

text \<open>
  \<^verbatim>\<open>v.k\<close> and \<^verbatim>\<open>v[0]\<close> (the property named \<^verbatim>\<open>"0"\<close>), for the five names the script reads:
  \<^verbatim>\<open>setup\<close>, \<^verbatim>\<open>punchline\<close>, \<^verbatim>\<open>quote\<close>, \<^verbatim>\<open>author\<close> and \<^verbatim>\<open>0\<close>. No prototype defines any of
  them, so a read is a look-up among the value's own properties. Reading a property of
  \<^verbatim>\<open>null\<close> or \<^verbatim>\<open>undefined\<close> throws a TypeError.
\<close>

definition cannot_read :: "string \<Rightarrow> string \<Rightarrow> js_error" where
  \<open>cannot_read what k =
     TypeError (''Cannot read properties of '' @ what @ '' (reading ''
                @ [CHR 0x27] @ k @ [CHR 0x27] @ '')'')\<close>

fun get_prop :: "json option \<Rightarrow> string \<Rightarrow> js_error + json option" where
  "get_prop None k = Inl (cannot_read ''undefined'' k)"
| "get_prop (Some JNull) k = Inl (cannot_read ''null'' k)"
| "get_prop (Some (JObj kvs)) k = Inr (map_of (rev kvs) k)"
| "get_prop (Some (JArr xs)) k =
     Inr (if k = ''0'' then (case xs of [] \<Rightarrow> None | x # _ \<Rightarrow> Some x) else None)"
| "get_prop (Some (JStr s)) k =
     Inr (if k = ''0'' then (case s of [] \<Rightarrow> None | c # _ \<Rightarrow> Some (JStr [c])) else None)"
| "get_prop (Some (JBool b)) k = Inr None"
| "get_prop (Some (JNum r)) k = Inr None"

text \<open>
  \<^verbatim>\<open>${v}\<close> in a template literal: the string conversion of a value, which can throw.
  An array prints its elements separated by commas, \<^verbatim>\<open>null\<close> elements as nothing, and
  throws when the conversion of an element throws. An object is converted by its
  \<^verbatim>\<open>toString\<close>: a parsed object that has no member of that name inherits the one that
  prints \<^verbatim>\<open>[object Object]\<close>; a member of that name is a JSON value, never a function, the
  inherited \<^verbatim>\<open>valueOf\<close> returns the object itself, and the conversion throws a TypeError.
\<close>

fun join_comma :: "string list \<Rightarrow> string" where
  "join_comma [] = []"
| "join_comma [x] = x"
| "join_comma (x # y # ys) = x @ '','' @ join_comma (y # ys)"

definition cannot_convert :: js_error where
  "cannot_convert = TypeError ''Cannot convert object to primitive value''"

fun to_string :: "json \<Rightarrow> js_error + string"
  and to_strings :: "json list \<Rightarrow> js_error + string list" where
  "to_string JNull = Inr ''null''"
| "to_string (JBool b) = Inr (if b then ''true'' else ''false'')"
| "to_string (JNum r) = Inr r"
| "to_string (JStr s) = Inr s"
| "to_string (JArr xs) =
     (case to_strings xs of Inl e \<Rightarrow> Inl e | Inr ss \<Rightarrow> Inr (join_comma ss))"
| "to_string (JObj kvs) =
     (if ''toString'' \<in> fst ` set kvs then Inl cannot_convert else Inr ''[object Object]'')"
| "to_strings [] = Inr []"
| "to_strings (x # xs) =
     (case (if x = JNull then Inr [] else to_string x) of
        Inl e \<Rightarrow> Inl e
      | Inr s \<Rightarrow> (case to_strings xs of Inl e \<Rightarrow> Inl e | Inr ss \<Rightarrow> Inr (s # ss)))"

definition interpolate :: "json option \<Rightarrow> js_error + string" where
  "interpolate v = (case v of None \<Rightarrow> Inr ''undefined'' | Some j \<Rightarrow> to_string j)"

subsection \<open>The network as an input\<close>

text \<open>
  A response carries its status and what \<^verbatim>\<open>response.json()\<close> settles to (the parsed body,
  or the error it rejects with). \<^verbatim>\<open>response.ok\<close> is true for the statuses 200 to 299.
\<close>

datatype response = Response (status: nat) (json: "js_error + json")

datatype fetch_outcome = Rejects js_error | Resolves response

definition ok :: "response \<Rightarrow> bool" where
  "ok r = (200 \<le> status r \<and> status r \<le> 299)"

text \<open>What the promise of an \<^verbatim>\<open>async\<close> function settles to.\<close>

datatype settled = Fulfilled | Rejected js_error

subsection \<open>Configuration\<close>

record api_config =
  joke_url :: string
  quote_url :: string
  quote_key :: string

definition API_CONFIG :: api_config where
  "API_CONFIG =
     \<lparr> joke_url = ''https://official-joke-api.appspot.com/random_joke'',
       quote_url = ''https://api.api-ninjas.com/v1/quotes'',
       quote_key = ''31QJlR8WDfEauP3gVEZyLY4qYuFalrvf2BHDurq8'' \<rparr>"

subsection \<open>The page\<close>

text \<open>The elements of the DOM cache; \<open>goBackButton i\<close> is the i-th element of \<^verbatim>\<open>goBackButtons\<close>.\<close>

datatype elem =
    homeScreen | jokeScreen | quoteScreen
  | getJokeButton | getQuoteButton
  | jokeTextContainer | anotherJokeButton | funnyButton
  | quoteTextContainer | anotherQuoteButton
  | goBackButton nat

text \<open>
  The content of a text container is the last string assigned to it, with the property it
  was assigned through.
\<close>

datatype content = InnerHTML string | TextContent string

text \<open>The effects of the script that leave the page, and its writes, in order.\<close>

datatype effect =
    Write elem content
  | Fetch string "(string \<times> string) list"
  | ConsoleError string js_error

record app =
  classList :: "elem \<Rightarrow> string list"
  display :: "elem \<Rightarrow> content"
  funnyButton_textContent :: string
  timers :: "(nat \<times> string) list"
  now :: nat
  trace :: "effect list"

definition set_innerHTML :: "elem \<Rightarrow> string \<Rightarrow> app \<Rightarrow> app" where
  "set_innerHTML e h s =
     s\<lparr> display := (display s)(e := InnerHTML h), trace := trace s @ [Write e (InnerHTML h)] \<rparr>"

definition set_textContent :: "elem \<Rightarrow> string \<Rightarrow> app \<Rightarrow> app" where
  "set_textContent e t s =
     s\<lparr> display := (display s)(e := TextContent t), trace := trace s @ [Write e (TextContent t)] \<rparr>"

definition fetch :: "string \<Rightarrow> (string \<times> string) list \<Rightarrow> app \<Rightarrow> app" where
  "fetch url headers s = s\<lparr> trace := trace s @ [Fetch url headers] \<rparr>"

definition console_error :: "string \<Rightarrow> js_error \<Rightarrow> app \<Rightarrow> app" where
  "console_error label e s = s\<lparr> trace := trace s @ [ConsoleError label e] \<rparr>"

text \<open>\<^verbatim>\<open>classList\<close>: an ordered set of tokens.\<close>

definition classList_add :: "string \<Rightarrow> string list \<Rightarrow> string list" where
  "classList_add tok cl = (if tok \<in> set cl then cl else cl @ [tok])"

definition classList_remove :: "string \<Rightarrow> string list \<Rightarrow> string list" where
  "classList_remove tok cl = filter (\<lambda>t. t \<noteq> tok) cl"

definition classList_toggle :: "string \<Rightarrow> bool \<Rightarrow> string list \<Rightarrow> string list" where
  "classList_toggle tok force cl = (if force then classList_add tok cl else classList_remove tok cl)"

subsection \<open>\<^verbatim>\<open>displayScreen\<close>\<close>

definition displayScreen :: "elem \<Rightarrow> app \<Rightarrow> app" where
  "displayScreen screenToShow s =
     fold (\<lambda>screen s.
             s\<lparr> classList := (classList s)
                   (screen := classList_toggle ''hidden'' (screen \<noteq> screenToShow) (classList s screen)) \<rparr>)
          [homeScreen, jokeScreen, quoteScreen] s"

text \<open>A screen is visible when it does not carry the class \<^verbatim>\<open>hidden\<close>.\<close>

definition visible :: "app \<Rightarrow> elem \<Rightarrow> bool" where
  "visible s e = (''hidden'' \<notin> set (classList s e))"

definition screens :: "elem list" where
  "screens = [homeScreen, jokeScreen, quoteScreen]"

text \<open>A sequence of calls of \<^verbatim>\<open>displayScreen\<close>, first target first.\<close>

definition displayScreens :: "elem list \<Rightarrow> app \<Rightarrow> app" where
  "displayScreens targets s = fold displayScreen targets s"

subsection \<open>\<^verbatim>\<open>showNewJoke\<close>\<close>

text \<open>The strings of the function, white space of the template literal included.\<close>

definition indent :: "nat \<Rightarrow> string" where
  "indent n = CHR 0x0A # replicate n (CHR '' '')"

definition joke_loading :: string where
  \<open>joke_loading = ''<p class="opacity-70">Getting a new giggle...</p>''\<close>

definition joke_markup :: "string \<Rightarrow> string \<Rightarrow> string" where
  \<open>joke_markup setup punchline =
     indent 24 @ ''<p class="font-semibold">'' @ setup @ ''</p>'' @
     indent 24 @ ''<p class="mt-2">'' @ punchline @ ''</p>'' @
     indent 20\<close>

definition joke_failed :: string where
  \<open>joke_failed = ''Oops! Couldn't fetch a joke. Please try again.''\<close>

definition http_error :: "nat \<Rightarrow> js_error" where
  "http_error st = Error (''HTTP error! status: '' @ string_of_nat st)"

text \<open>
  The function runs to its first \<^verbatim>\<open>await\<close>: it writes the placeholder and calls
  \<^verbatim>\<open>fetch\<close>.
\<close>

definition showNewJoke_start :: "api_config \<Rightarrow> app \<Rightarrow> app" where
  "showNewJoke_start cfg s = fetch (joke_url cfg) [] (set_innerHTML jokeTextContainer joke_loading s)"

text \<open>
  The rest of the \<^verbatim>\<open>try\<close> block, once the network has answered: \<open>Inl\<close> is a thrown error
  (nothing is written before a throw), \<open>Inr\<close> the state after the block. The template
  literal reads and converts \<^verbatim>\<open>setup\<close>, then reads and converts \<^verbatim>\<open>punchline\<close>; the
  assignment comes last.
\<close>

definition showNewJoke_try :: "fetch_outcome \<Rightarrow> app \<Rightarrow> js_error + app" where
  "showNewJoke_try outcome s =
     (case outcome of
        Rejects e \<Rightarrow> Inl e
      | Resolves response \<Rightarrow>
          if \<not> ok response then Inl (http_error (status response))
          else (case json response of
                  Inl e \<Rightarrow> Inl e
                | Inr jokeData \<Rightarrow>
          (case get_prop (Some jokeData) ''setup'' of
             Inl e \<Rightarrow> Inl e
           | Inr setup \<Rightarrow>
          (case interpolate setup of
             Inl e \<Rightarrow> Inl e
           | Inr setup_text \<Rightarrow>
          (case get_prop (Some jokeData) ''punchline'' of
             Inl e \<Rightarrow> Inl e
           | Inr punchline \<Rightarrow>
          (case interpolate punchline of
             Inl e \<Rightarrow> Inl e
           | Inr punchline_text \<Rightarrow>
               Inr (set_innerHTML jokeTextContainer
                      (joke_markup setup_text punchline_text) s)))))))"

definition showNewJoke_catch :: "js_error \<Rightarrow> app \<Rightarrow> app" where
  "showNewJoke_catch error s =
     set_textContent jokeTextContainer joke_failed (console_error ''Failed to fetch joke:'' error s)"

definition showNewJoke_resume :: "fetch_outcome \<Rightarrow> app \<Rightarrow> settled \<times> app" where
  "showNewJoke_resume outcome s =
     (case showNewJoke_try outcome s of
        Inr s' \<Rightarrow> (Fulfilled, s')
      | Inl error \<Rightarrow> (Fulfilled, showNewJoke_catch error s))"

text \<open>One call that no other handler interleaves with.\<close>

definition showNewJoke :: "api_config \<Rightarrow> fetch_outcome \<Rightarrow> app \<Rightarrow> settled \<times> app" where
  "showNewJoke cfg outcome s = showNewJoke_resume outcome (showNewJoke_start cfg s)"

subsection \<open>\<^verbatim>\<open>showNewQuote\<close>\<close>

definition quote_loading :: string where
  \<open>quote_loading = ''<p class="opacity-70">Fetching some wisdom...</p>''\<close>

definition quote_no_key :: string where
  \<open>quote_no_key =
     indent 24 @ ''<p class="text-red-300 font-semibold">Please add your API key in the script!</p>'' @
     indent 24 @ ''<p class="text-sm mt-2">You can get a free one from api-ninjas.com</p>'' @
     indent 20\<close>

definition quote_markup :: "string \<Rightarrow> string \<Rightarrow> string" where
  \<open>quote_markup quote author =
     indent 24 @ ''<p>"'' @ quote @ ''"</p>'' @
     indent 24 @ ''<em class="block text-right w-full mt-2 opacity-80">- '' @ author @ ''</em>'' @
     indent 20\<close>

definition auth_failed :: string where
  \<open>auth_failed = ''Authentication failed. Is your API key correct?''\<close>

text \<open>
  Up to the first \<^verbatim>\<open>await\<close>, or to the \<^verbatim>\<open>return\<close> of the key check. The flag tells whether
  the function is waiting for the network.
\<close>

datatype progress = Returned | Awaiting

definition showNewQuote_start :: "api_config \<Rightarrow> app \<Rightarrow> progress \<times> app" where
  "showNewQuote_start cfg s =
     (let s1 = set_innerHTML quoteTextContainer quote_loading s in
      if quote_key cfg = ''YOUR_API_KEY'' \<or> quote_key cfg = []
      then (Returned, set_innerHTML quoteTextContainer quote_no_key s1)
      else (Awaiting, fetch (quote_url cfg) [(''X-Api-Key'', quote_key cfg)] s1))"

definition showNewQuote_try :: "fetch_outcome \<Rightarrow> app \<Rightarrow> js_error + app" where
  "showNewQuote_try outcome s =
     (case outcome of
        Rejects e \<Rightarrow> Inl e
      | Resolves response \<Rightarrow>
          if \<not> ok response then
            (if status response = 401 \<or> status response = 403 then Inl (Error auth_failed)
             else Inl (http_error (status response)))
          else (case json response of
                  Inl e \<Rightarrow> Inl e
                | Inr quoteDataArray \<Rightarrow>
          (case get_prop (Some quoteDataArray) ''0'' of
             Inl e \<Rightarrow> Inl e
           | Inr quoteData \<Rightarrow>
          (case get_prop quoteData ''quote'' of
             Inl e \<Rightarrow> Inl e
           | Inr quote \<Rightarrow>
          (case interpolate quote of
             Inl e \<Rightarrow> Inl e
           | Inr quote_text \<Rightarrow>
          (case get_prop quoteData ''author'' of
             Inl e \<Rightarrow> Inl e
           | Inr author \<Rightarrow>
          (case interpolate author of
             Inl e \<Rightarrow> Inl e
           | Inr author_text \<Rightarrow>
               Inr (set_innerHTML quoteTextContainer
                      (quote_markup quote_text author_text) s))))))))"

definition showNewQuote_catch :: "js_error \<Rightarrow> app \<Rightarrow> app" where
  "showNewQuote_catch error s =
     set_textContent quoteTextContainer (''Oops! '' @ message error)
       (console_error ''Failed to fetch quote:'' error s)"

definition showNewQuote_resume :: "fetch_outcome \<Rightarrow> app \<Rightarrow> settled \<times> app" where
  "showNewQuote_resume outcome s =
     (case showNewQuote_try outcome s of
        Inr s' \<Rightarrow> (Fulfilled, s')
      | Inl error \<Rightarrow> (Fulfilled, showNewQuote_catch error s))"

definition showNewQuote :: "api_config \<Rightarrow> fetch_outcome \<Rightarrow> app \<Rightarrow> settled \<times> app" where
  "showNewQuote cfg outcome s =
     (case showNewQuote_start cfg s of
        (Returned, s1) \<Rightarrow> (Fulfilled, s1)
      | (Awaiting, s1) \<Rightarrow> showNewQuote_resume outcome s1)"

text \<open>The calls of \<^verbatim>\<open>fetch\<close> and the writes to an element, read off a trace.\<close>

fun is_fetch :: "effect \<Rightarrow> bool" where
  "is_fetch (Fetch url headers) = True"
| "is_fetch x = False"

fun write_to :: "elem \<Rightarrow> effect \<Rightarrow> content list" where
  "write_to e (Write e' c) = (if e' = e then [c] else [])"
| "write_to e x = []"

definition fetches :: "effect list \<Rightarrow> effect list" where
  "fetches evs = filter is_fetch evs"

definition writes :: "elem \<Rightarrow> effect list \<Rightarrow> content list" where
  "writes e evs = concat (map (write_to e) evs)"

subsection \<open>\<^verbatim>\<open>handleFunnyButtonClick\<close>\<close>

definition haha :: string where
  "haha = ''Haha! '' @ [CHR 0xF0, CHR 0x9F, CHR 0x98, CHR 0x82]"

text \<open>The callback given to \<^verbatim>\<open>setTimeout\<close>; \<open>originalText\<close> is the variable it closes over.\<close>

definition timer_callback :: "string \<Rightarrow> app \<Rightarrow> app" where
  "timer_callback originalText s =
     s\<lparr> funnyButton_textContent := originalText,
        classList := (classList s)
          (funnyButton := classList_remove ''opacity-50''
                            (classList_remove ''cursor-not-allowed'' (classList s funnyButton))) \<rparr>"

text \<open>\<^verbatim>\<open>setTimeout(callback, delay)\<close>: a pending timer is its due time and the captured text.\<close>

definition setTimeout :: "string \<Rightarrow> nat \<Rightarrow> app \<Rightarrow> app" where
  "setTimeout originalText delay s = s\<lparr> timers := timers s @ [(now s + delay, originalText)] \<rparr>"

definition handleFunnyButtonClick :: "app \<Rightarrow> app" where
  "handleFunnyButtonClick s =
     (let originalText = funnyButton_textContent s;
          s1 = s\<lparr> funnyButton_textContent := haha \<rparr>;
          s2 = s1\<lparr> classList := (classList s1)
                    (funnyButton := classList_add ''opacity-50''
                                      (classList_add ''cursor-not-allowed'' (classList s1 funnyButton))) \<rparr>
      in setTimeout originalText 1500 s2)"

text \<open>
  The simulated clock moves on by \<open>d\<close> milliseconds: the timers due by then run, earlier
  due time first and, at the same due time, earlier \<^verbatim>\<open>setTimeout\<close> first; the others stay.
\<close>

definition elapse :: "nat \<Rightarrow> app \<Rightarrow> app" where
  "elapse d s =
     (let t = now s + d;
          due = filter (\<lambda>x. fst x \<le> t) (timers s);
          later = filter (\<lambda>x. \<not> fst x \<le> t) (timers s)
      in fold (\<lambda>x. timer_callback (snd x)) (sort_key fst due) (s\<lparr> now := t, timers := later \<rparr>))"

text \<open>
  What happens to the button: a click (the listener is bound to every click, whatever the
  classes of the button) or the passing of time.
\<close>

datatype event = Click | Elapse nat

fun step :: "event \<Rightarrow> app \<Rightarrow> app" where
  "step Click s = handleFunnyButtonClick s"
| "step (Elapse d) s = elapse d s"

definition run :: "event list \<Rightarrow> app \<Rightarrow> app" where
  "run evs s = fold step evs s"

text \<open>The time that a list of events takes.\<close>

fun duration :: "event list \<Rightarrow> nat" where
  "duration [] = 0"
| "duration (Click # evs) = duration evs"
| "duration (Elapse d # evs) = d + duration evs"

text \<open>The button is dimmed when it carries both classes that the handler adds.\<close>

definition dimmed :: "app \<Rightarrow> bool" where
  "dimmed s = (''cursor-not-allowed'' \<in> set (classList s funnyButton)
               \<and> ''opacity-50'' \<in> set (classList s funnyButton))"

subsection \<open>A page to run on\<close>

text \<open>
  A page as it may load: the home screen visible, the other two hidden, the containers
  empty, the button labelled \<^verbatim>\<open>Funny!\<close>, no timer pending.
\<close>

definition page0 :: app where
  "page0 =
     \<lparr> classList = (\<lambda>e. [])(jokeScreen := [''hidden''], quoteScreen := [''hidden'']),
       display = (\<lambda>e. InnerHTML []),
       funnyButton_textContent = ''Funny!'',
       timers = [],
       now = 0,
       trace = [] \<rparr>"

subsection \<open>Sample bodies\<close>



subsection \<open>A pending timer\<close>

text \<open>
  An invariant for the proofs about the button: the timer \<open>(T, originalText)\<close> is pending
  and not yet due, a timer set now would be due after it, and every timer that stands
  after it in the list is due later.
\<close>

definition awaiting_timer :: "nat \<Rightarrow> string \<Rightarrow> app \<Rightarrow> bool" where
  "awaiting_timer T originalText s \<longleftrightarrow>
     now s < T \<and> T < now s + 1500
     \<and> (\<exists>pre post. timers s = pre @ [(T, originalText)] @ post \<and> (\<forall>x \<in> set post. T < fst x))"

section \<open>Properties\<close>

subsection \<open>Screen switching\<close>

lemma toggle_hidden_mem:
  "''hidden'' \<in> set (classList_toggle ''hidden'' force cl) \<longleftrightarrow> force"
  by (simp add: classList_toggle_def classList_add_def classList_remove_def)

lemma toggle_hidden_fix:
  "(''hidden'' \<in> set cl \<longleftrightarrow> force) \<Longrightarrow> classList_toggle ''hidden'' force cl = cl"
  by (auto simp: classList_toggle_def classList_add_def classList_remove_def filter_id_conv)

lemma displayScreen_classList:
  "classList (displayScreen t s) =
     (classList s)
       (homeScreen := classList_toggle ''hidden'' (homeScreen \<noteq> t) (classList s homeScreen),
        jokeScreen := classList_toggle ''hidden'' (jokeScreen \<noteq> t) (classList s jokeScreen),
        quoteScreen := classList_toggle ''hidden'' (quoteScreen \<noteq> t) (classList s quoteScreen))"
  by (simp add: displayScreen_def)

lemma displayScreen_only_classList:
  "displayScreen t s = s\<lparr> classList := classList (displayScreen t s) \<rparr>"
  by (simp add: displayScreen_def)

lemma visible_displayScreen:
  "e \<in> set screens \<Longrightarrow> visible (displayScreen t s) e \<longleftrightarrow> e = t"
  by (auto simp: visible_def displayScreen_classList screens_def toggle_hidden_mem)

lemma displayScreen_active:
  assumes "\<forall>e \<in> set screens. visible s e \<longleftrightarrow> e = t"
  shows "displayScreen t s = s"
proof -
  have h: "''hidden'' \<in> set (classList s homeScreen) \<longleftrightarrow> homeScreen \<noteq> t"
    and j: "''hidden'' \<in> set (classList s jokeScreen) \<longleftrightarrow> jokeScreen \<noteq> t"
    and q: "''hidden'' \<in> set (classList s quoteScreen) \<longleftrightarrow> quoteScreen \<noteq> t"
    using assms by (auto simp: visible_def screens_def)
  have "classList (displayScreen t s) = classList s"
    unfolding displayScreen_classList
    by (simp only: toggle_hidden_fix [OF h] toggle_hidden_fix [OF j] toggle_hidden_fix [OF q]
          fun_upd_triv)
  then show ?thesis
    using displayScreen_only_classList [of t s] by simp
qed

lemma displayScreens_snoc:
  "displayScreens (ts @ [t]) s = displayScreen t (displayScreens ts s)"
  by (simp add: displayScreens_def)

lemma displayScreens_last_call:
  assumes "0 < n" "n \<le> length ts"
  shows "displayScreens (take n ts) s
           = displayScreen (ts ! (n - 1)) (displayScreens (take (n - 1) ts) s)"
proof -
  from assms have "take n ts = take (n - 1) ts @ [ts ! (n - 1)]"
    by (metis Suc_pred' take_Suc_conv_app_nth Suc_le_lessD)
  then show ?thesis by (simp add: displayScreens_snoc)
qed

text \<open>
  C4. Whatever the classes of the three screens before the call, after
  \<open>displayScreen target\<close> with \<open>target\<close> one of the three screens, the target is visible and
  the other two are hidden. The same holds after the n-th call of every sequence of such
  calls, from every starting state, for the target of that call. And in a state where
  \<open>target\<close> is the one visible screen, \<open>displayScreen target\<close> returns the state unchanged.
\<close>

theorem displayScreen_mutual_exclusion:
  "(target \<in> set screens \<longrightarrow>
      (\<forall>e \<in> set screens. visible (displayScreen target s) e \<longleftrightarrow> e = target))
   \<and> (set targets \<subseteq> set screens \<and> 0 < n \<and> n \<le> length targets \<longrightarrow>
      (\<forall>e \<in> set screens.
         visible (displayScreens (take n targets) s) e \<longleftrightarrow> e = targets ! (n - 1)))
   \<and> (target \<in> set screens \<and> (\<forall>e \<in> set screens. visible s e \<longleftrightarrow> e = target) \<longrightarrow>
      displayScreen target s = s)"
  using visible_displayScreen displayScreen_active displayScreens_last_call
  by simp

theorem displayScreen_mutual_exclusion_witness:
  "homeScreen \<in> set screens
   \<and> set [jokeScreen, quoteScreen] \<subseteq> set screens
   \<and> (0::nat) < 2 \<and> (2::nat) \<le> length [jokeScreen, quoteScreen]
   \<and> visible page0 homeScreen \<and> \<not> visible page0 jokeScreen \<and> \<not> visible page0 quoteScreen
   \<and> visible (displayScreen homeScreen page0) homeScreen
   \<and> \<not> visible (displayScreen homeScreen page0) jokeScreen
   \<and> \<not> visible (displayScreen homeScreen page0) quoteScreen
   \<and> \<not> visible (displayScreens [jokeScreen, quoteScreen] page0) homeScreen
   \<and> \<not> visible (displayScreens [jokeScreen, quoteScreen] page0) jokeScreen
   \<and> visible (displayScreens [jokeScreen, quoteScreen] page0) quoteScreen
   \<and> displayScreen homeScreen page0 = page0"
  using displayScreen_mutual_exclusion [of homeScreen page0 "[jokeScreen, quoteScreen]" 2]
  by (simp add: screens_def visible_def page0_def)

subsection \<open>The state after a write\<close>

lemma display_set_innerHTML [simp]:
  "display (set_innerHTML e h s) = (display s)(e := InnerHTML h)"
  by (simp add: set_innerHTML_def)

lemma display_set_textContent [simp]:
  "display (set_textContent e t s) = (display s)(e := TextContent t)"
  by (simp add: set_textContent_def)

lemma display_fetch [simp]: "display (fetch url headers s) = display s"
  by (simp add: fetch_def)

lemma display_console_error [simp]: "display (console_error label e s) = display s"
  by (simp add: console_error_def)

lemma trace_set_innerHTML [simp]:
  "trace (set_innerHTML e h s) = trace s @ [Write e (InnerHTML h)]"
  by (simp add: set_innerHTML_def)

lemma trace_set_textContent [simp]:
  "trace (set_textContent e t s) = trace s @ [Write e (TextContent t)]"
  by (simp add: set_textContent_def)

lemma trace_fetch [simp]: "trace (fetch url headers s) = trace s @ [Fetch url headers]"
  by (simp add: fetch_def)

lemma trace_console_error [simp]:
  "trace (console_error label e s) = trace s @ [ConsoleError label e]"
  by (simp add: console_error_def)

subsection \<open>Conversions and the texts of the templates\<close>

lemma interpolate_undefined: "interpolate None = Inr ''undefined''"
  by (simp add: interpolate_def)

lemma interpolate_string: "interpolate (Some (JStr S)) = Inr S"
  by (simp add: interpolate_def)

lemma interpolate_toString_member:
  "''toString'' \<in> fst ` set ms \<Longrightarrow> interpolate (Some (JObj ms)) = Inl cannot_convert"
  by (simp add: interpolate_def)

lemma joke_markup_text:
  \<open>joke_markup S P =
     [CHR 0x0A] @ ''                        <p class="font-semibold">'' @ S @ ''</p>'' @
     [CHR 0x0A] @ ''                        <p class="mt-2">'' @ P @ ''</p>'' @
     [CHR 0x0A] @ ''                    ''\<close>
  by (simp add: joke_markup_def indent_def eval_nat_numeral)





subsection \<open>The joke fetcher\<close>

lemma showNewJoke_resume_throws:
  "showNewJoke_try outcome s = Inl e \<Longrightarrow>
     showNewJoke_resume outcome s = (Fulfilled, showNewJoke_catch e s)"
  by (simp add: showNewJoke_resume_def)

lemma showNewJoke_try_throws:
  "showNewJoke_try (Rejects e) s = Inl e"
  "\<not> ok r \<Longrightarrow> showNewJoke_try (Resolves r) s = Inl (http_error (status r))"
  "ok r \<Longrightarrow> json r = Inl e \<Longrightarrow> showNewJoke_try (Resolves r) s = Inl e"
  "ok r \<Longrightarrow> json r = Inr j \<Longrightarrow> get_prop (Some j) ''setup'' = Inl e \<Longrightarrow>
     showNewJoke_try (Resolves r) s = Inl e"
  "ok r \<Longrightarrow> json r = Inr j \<Longrightarrow> get_prop (Some j) ''setup'' = Inr a \<Longrightarrow> interpolate a = Inl e \<Longrightarrow>
     showNewJoke_try (Resolves r) s = Inl e"
  "ok r \<Longrightarrow> json r = Inr j \<Longrightarrow> get_prop (Some j) ''setup'' = Inr a \<Longrightarrow> interpolate a = Inr S \<Longrightarrow>
     get_prop (Some j) ''punchline'' = Inl e \<Longrightarrow> showNewJoke_try (Resolves r) s = Inl e"
  "ok r \<Longrightarrow> json r = Inr j \<Longrightarrow> get_prop (Some j) ''setup'' = Inr a \<Longrightarrow> interpolate a = Inr S \<Longrightarrow>
     get_prop (Some j) ''punchline'' = Inr b \<Longrightarrow> interpolate b = Inl e \<Longrightarrow>
     showNewJoke_try (Resolves r) s = Inl e"
  by (simp_all add: showNewJoke_try_def)

lemma showNewJoke_try_writes:
  "ok r \<Longrightarrow> json r = Inr j \<Longrightarrow> get_prop (Some j) ''setup'' = Inr a \<Longrightarrow> interpolate a = Inr S \<Longrightarrow>
     get_prop (Some j) ''punchline'' = Inr b \<Longrightarrow> interpolate b = Inr P \<Longrightarrow>
     showNewJoke_try (Resolves r) s = Inr (set_innerHTML jokeTextContainer (joke_markup S P) s)"
  by (simp add: showNewJoke_try_def)


lemma showNewJoke_fulfilled: "fst (showNewJoke cfg outcome s) = Fulfilled"
  by (simp add: showNewJoke_def showNewJoke_resume_def split: sum.splits)




subsection \<open>The quote fetcher\<close>

lemma showNewQuote_start_no_key:
  "quote_key cfg = ''YOUR_API_KEY'' \<or> quote_key cfg = [] \<Longrightarrow>
     showNewQuote_start cfg s =
       (Returned, set_innerHTML quoteTextContainer quote_no_key
                    (set_innerHTML quoteTextContainer quote_loading s))"
  by (simp add: showNewQuote_start_def)

lemma showNewQuote_start_key:
  "quote_key cfg \<noteq> ''YOUR_API_KEY'' \<Longrightarrow> quote_key cfg \<noteq> [] \<Longrightarrow>
     showNewQuote_start cfg s =
       (Awaiting, fetch (quote_url cfg) [(''X-Api-Key'', quote_key cfg)]
                    (set_innerHTML quoteTextContainer quote_loading s))"
  by (simp add: showNewQuote_start_def)

lemma showNewQuote_key:
  "quote_key cfg \<noteq> ''YOUR_API_KEY'' \<Longrightarrow> quote_key cfg \<noteq> [] \<Longrightarrow>
     showNewQuote cfg outcome s =
       showNewQuote_resume outcome
         (fetch (quote_url cfg) [(''X-Api-Key'', quote_key cfg)]
            (set_innerHTML quoteTextContainer quote_loading s))"
  by (simp add: showNewQuote_def showNewQuote_start_key)

lemma showNewQuote_resume_throws:
  "showNewQuote_try outcome s = Inl e \<Longrightarrow>
     showNewQuote_resume outcome s = (Fulfilled, showNewQuote_catch e s)"
  by (simp add: showNewQuote_resume_def)

lemma showNewQuote_catch_display:
  "display (showNewQuote_catch e s) quoteTextContainer = TextContent (''Oops! '' @ message e)"
  by (simp add: showNewQuote_catch_def)

lemma showNewQuote_try_status:
  "\<not> ok r \<Longrightarrow> status r = 401 \<or> status r = 403 \<Longrightarrow>
     showNewQuote_try (Resolves r) s = Inl (Error auth_failed)"
  "\<not> ok r \<Longrightarrow> status r \<noteq> 401 \<Longrightarrow> status r \<noteq> 403 \<Longrightarrow>
     showNewQuote_try (Resolves r) s = Inl (http_error (status r))"
  by (auto simp add: showNewQuote_try_def)




lemma message_Error [simp]: "message (Error m) = m"
  by (simp add: Error_def)

lemma message_TypeError [simp]: "message (TypeError m) = m"
  by (simp add: TypeError_def)

lemma string_of_nat_500: "string_of_nat 500 = ''500''"
  by code_simp

lemma fetches_append [simp]: "fetches (xs @ ys) = fetches xs @ fetches ys"
  by (simp add: fetches_def)

lemma writes_append [simp]: "writes e (xs @ ys) = writes e xs @ writes e ys"
  by (simp add: writes_def)



text \<open>
  C6. With a key that passes the check: a response of status 401 or 403 leaves the quote
  container with the text \<^verbatim>\<open>Oops! \<close> followed by the authentication message; any other
  status outside 200..299 leaves it with \<^verbatim>\<open>Oops! HTTP error! status: \<close> followed by the
  status in decimal, which is not the authentication text.
\<close>

theorem showNewQuote_status_failure:
  assumes "quote_key cfg \<noteq> ''YOUR_API_KEY''" and "quote_key cfg \<noteq> []"
  shows "(status response = 401 \<or> status response = 403 \<longrightarrow>
            display (snd (showNewQuote cfg (Resolves response) s)) quoteTextContainer
              = TextContent (''Oops! '' @ auth_failed))
       \<and> (\<not> ok response \<and> status response \<noteq> 401 \<and> status response \<noteq> 403 \<longrightarrow>
            display (snd (showNewQuote cfg (Resolves response) s)) quoteTextContainer
              = TextContent (''Oops! HTTP error! status: '' @ string_of_nat (status response))
            \<and> display (snd (showNewQuote cfg (Resolves response) s)) quoteTextContainer
              \<noteq> TextContent (''Oops! '' @ auth_failed))"
proof -
  have auth: "\<not> ok response" if "status response = 401 \<or> status response = 403"
    using that by (auto simp: ok_def)
  show ?thesis
    using assms auth
    by (auto simp: showNewQuote_key showNewQuote_resume_throws showNewQuote_try_status
          showNewQuote_catch_display http_error_def auth_failed_def)
qed

theorem showNewQuote_status_failure_witness:
  "quote_key API_CONFIG \<noteq> ''YOUR_API_KEY'' \<and> quote_key API_CONFIG \<noteq> []
   \<and> status (Response 401 (Inr JNull)) = 401
   \<and> display (snd (showNewQuote API_CONFIG (Resolves (Response 401 (Inr JNull))) page0)) quoteTextContainer
       = TextContent ''Oops! Authentication failed. Is your API key correct?''
   \<and> \<not> ok (Response 500 (Inr JNull))
   \<and> display (snd (showNewQuote API_CONFIG (Resolves (Response 500 (Inr JNull))) page0)) quoteTextContainer
       = TextContent ''Oops! HTTP error! status: 500''"
  using showNewQuote_status_failure [of API_CONFIG "Response 401 (Inr JNull)" page0]
        showNewQuote_status_failure [of API_CONFIG "Response 500 (Inr JNull)" page0]
  by (simp add: API_CONFIG_def ok_def auth_failed_def string_of_nat_500)




subsection \<open>The order of the writes of the quote fetcher\<close>

text \<open>
  C9, as stated, fails. With the key \<^verbatim>\<open>YOUR_API_KEY\<close> the call writes the quote container
  twice: the loading placeholder first (the first statement of the function, before the
  key check), then the instructional message.
\<close>

theorem showNewQuote_only_write_counterexample:
  "writes quoteTextContainer
     (trace (snd (showNewQuote (API_CONFIG\<lparr>quote_key := ''YOUR_API_KEY''\<rparr>)
                    (Rejects (TypeError ''Failed to fetch'')) page0)))
     = [InnerHTML quote_loading, InnerHTML quote_no_key]
   \<and> writes quoteTextContainer
     (trace (snd (showNewQuote (API_CONFIG\<lparr>quote_key := ''YOUR_API_KEY''\<rparr>)
                    (Rejects (TypeError ''Failed to fetch'')) page0)))
     \<noteq> [InnerHTML quote_no_key]"
  by (simp add: showNewQuote_def showNewQuote_start_no_key page0_def writes_def)

text \<open>
  C9, amended. The loading placeholder is the first write of every call. When the key is
  the placeholder or empty, the effects of the call are that write and then the write of
  the instructional message, which is how the container ends. When the key passes the
  check, the function suspends having written the placeholder and then called \<^verbatim>\<open>fetch\<close>
  with the key in the header \<^verbatim>\<open>X-Api-Key\<close>.
\<close>

theorem showNewQuote_loading_first:
  "(quote_key cfg = ''YOUR_API_KEY'' \<or> quote_key cfg = [] \<longrightarrow>
      trace (snd (showNewQuote cfg outcome s))
        = trace s @ [Write quoteTextContainer (InnerHTML quote_loading),
                     Write quoteTextContainer (InnerHTML quote_no_key)]
      \<and> display (snd (showNewQuote cfg outcome s)) quoteTextContainer = InnerHTML quote_no_key)
   \<and> (quote_key cfg \<noteq> ''YOUR_API_KEY'' \<and> quote_key cfg \<noteq> [] \<longrightarrow>
      fst (showNewQuote_start cfg s) = Awaiting
      \<and> trace (snd (showNewQuote_start cfg s))
        = trace s @ [Write quoteTextContainer (InnerHTML quote_loading),
                     Fetch (quote_url cfg) [(''X-Api-Key'', quote_key cfg)]])"
  by (simp add: showNewQuote_def showNewQuote_start_no_key showNewQuote_start_key)

theorem showNewQuote_loading_first_witness:
  "quote_key (API_CONFIG\<lparr>quote_key := []\<rparr>) = []
   \<and> trace (snd (showNewQuote (API_CONFIG\<lparr>quote_key := []\<rparr>) (Rejects (TypeError ''Failed to fetch'')) page0))
       = [Write quoteTextContainer (InnerHTML quote_loading),
          Write quoteTextContainer (InnerHTML quote_no_key)]
   \<and> quote_key API_CONFIG \<noteq> ''YOUR_API_KEY'' \<and> quote_key API_CONFIG \<noteq> []
   \<and> fst (showNewQuote_start API_CONFIG page0) = Awaiting
   \<and> trace (snd (showNewQuote_start API_CONFIG page0))
       = [Write quoteTextContainer (InnerHTML quote_loading),
          Fetch ''https://api.api-ninjas.com/v1/quotes''
                [(''X-Api-Key'', ''31QJlR8WDfEauP3gVEZyLY4qYuFalrvf2BHDurq8'')]]"
  using showNewQuote_loading_first [of "API_CONFIG\<lparr>quote_key := []\<rparr>"
          "Rejects (TypeError ''Failed to fetch'')" page0]
        showNewQuote_loading_first [of API_CONFIG "Rejects (TypeError ''Failed to fetch'')" page0]
  by (simp add: API_CONFIG_def page0_def)

subsection \<open>Failures of the joke fetcher\<close>

lemma showNewJoke_throws:
  "showNewJoke_try outcome (showNewJoke_start cfg s) = Inl e \<Longrightarrow>
     fst (showNewJoke cfg outcome s) = Fulfilled
     \<and> display (snd (showNewJoke cfg outcome s)) jokeTextContainer = TextContent joke_failed"
  by (simp add: showNewJoke_def showNewJoke_resume_throws showNewJoke_catch_def)

lemma showNewJoke_writes:
  "showNewJoke_try outcome (showNewJoke_start cfg s)
       = Inr (set_innerHTML jokeTextContainer html (showNewJoke_start cfg s)) \<Longrightarrow>
     fst (showNewJoke cfg outcome s) = Fulfilled
     \<and> display (snd (showNewJoke cfg outcome s)) jokeTextContainer = InnerHTML html"
  by (simp add: showNewJoke_def showNewJoke_resume_def)

text \<open>
  C2, as stated, fails. A body with a success status that parses to a record without
  \<^verbatim>\<open>punchline\<close> is not a failure for the code: it writes the markup, with the text
  \<^verbatim>\<open>undefined\<close> where the punchline would stand.
\<close>

theorem showNewJoke_missing_field_counterexample:
  \<open>display (snd (showNewJoke API_CONFIG
                   (Resolves (Response 200 (Inr (JObj [(''setup'', JStr ''Why?'')])))) page0))
     jokeTextContainer
     = InnerHTML ([CHR 0x0A] @ ''                        <p class="font-semibold">Why?</p>'' @
                  [CHR 0x0A] @ ''                        <p class="mt-2">undefined</p>'' @
                  [CHR 0x0A] @ ''                    '')
   \<and> display (snd (showNewJoke API_CONFIG
                   (Resolves (Response 200 (Inr (JObj [(''setup'', JStr ''Why?'')])))) page0))
     jokeTextContainer \<noteq> TextContent ''Oops! Couldn't fetch a joke. Please try again.''\<close>
  by (simp add: showNewJoke_writes [where html = "joke_markup ''Why?'' ''undefined''"]
        showNewJoke_try_writes [where a = "Some (JStr ''Why?'')" and b = None]
        ok_def interpolate_string interpolate_undefined joke_markup_text)

text \<open>
  C2, amended. The joke container ends as the fixed text, and the promise of the call is
  fulfilled, for every outcome on which the \<^verbatim>\<open>try\<close> block throws: \<^verbatim>\<open>fetch\<close> rejects; the
  status is outside 200..299; \<^verbatim>\<open>response.json()\<close> rejects; reading \<^verbatim>\<open>setup\<close> or \<^verbatim>\<open>punchline\<close>
  throws, as it does on the body \<^verbatim>\<open>null\<close>; or the conversion of one of the two values to
  text throws, as it does on an object with a member \<^verbatim>\<open>toString\<close>. On every other outcome
  the promise is fulfilled as well and the container ends as the markup of the two texts;
  a field that the record lacks reads as \<^verbatim>\<open>undefined\<close> and is written as that word.
\<close>

theorem showNewJoke_failure:
  \<open>((outcome = Rejects e
      \<or> outcome = Resolves r \<and> \<not> ok r
      \<or> outcome = Resolves r \<and> ok r \<and> json r = Inl e
      \<or> outcome = Resolves r \<and> ok r \<and> json r = Inr j \<and> get_prop (Some j) ''setup'' = Inl e
      \<or> outcome = Resolves r \<and> ok r \<and> json r = Inr j \<and> get_prop (Some j) ''setup'' = Inr a
          \<and> interpolate a = Inl e
      \<or> outcome = Resolves r \<and> ok r \<and> json r = Inr j \<and> get_prop (Some j) ''setup'' = Inr a
          \<and> interpolate a = Inr S \<and> get_prop (Some j) ''punchline'' = Inl e
      \<or> outcome = Resolves r \<and> ok r \<and> json r = Inr j \<and> get_prop (Some j) ''setup'' = Inr a
          \<and> interpolate a = Inr S \<and> get_prop (Some j) ''punchline'' = Inr b
          \<and> interpolate b = Inl e)
     \<longrightarrow> fst (showNewJoke cfg outcome s) = Fulfilled
         \<and> display (snd (showNewJoke cfg outcome s)) jokeTextContainer
             = TextContent ''Oops! Couldn't fetch a joke. Please try again.'')
   \<and> (outcome = Resolves r \<and> ok r \<and> json r = Inr j \<and> get_prop (Some j) ''setup'' = Inr a
       \<and> interpolate a = Inr S \<and> get_prop (Some j) ''punchline'' = Inr b \<and> interpolate b = Inr P
     \<longrightarrow> fst (showNewJoke cfg outcome s) = Fulfilled
         \<and> display (snd (showNewJoke cfg outcome s)) jokeTextContainer
             = InnerHTML ([CHR 0x0A] @ ''                        <p class="font-semibold">'' @ S @ ''</p>'' @
                          [CHR 0x0A] @ ''                        <p class="mt-2">'' @ P @ ''</p>'' @
                          [CHR 0x0A] @ ''                    ''))
   \<and> get_prop (Some JNull) ''setup''
       = Inl (JsError ''TypeError'' ''Cannot read properties of null (reading 'setup')'')
   \<and> get_prop (Some (JObj members)) ''setup'' = Inr (map_of (rev members) ''setup'')
   \<and> get_prop (Some (JObj members)) ''punchline'' = Inr (map_of (rev members) ''punchline'')
   \<and> interpolate None = Inr ''undefined''
   \<and> interpolate (Some (JStr T)) = Inr T
   \<and> (''toString'' \<in> fst ` set ms \<longrightarrow>
        interpolate (Some (JObj ms))
          = Inl (JsError ''TypeError'' ''Cannot convert object to primitive value''))\<close>
proof -
  let ?s1 = "showNewJoke_start cfg s"
  have "showNewJoke_try outcome ?s1 = Inl e \<or> showNewJoke_try outcome ?s1 = Inl (http_error (status r))"
    if "outcome = Rejects e
      \<or> outcome = Resolves r \<and> \<not> ok r
      \<or> outcome = Resolves r \<and> ok r \<and> json r = Inl e
      \<or> outcome = Resolves r \<and> ok r \<and> json r = Inr j \<and> get_prop (Some j) ''setup'' = Inl e
      \<or> outcome = Resolves r \<and> ok r \<and> json r = Inr j \<and> get_prop (Some j) ''setup'' = Inr a
          \<and> interpolate a = Inl e
      \<or> outcome = Resolves r \<and> ok r \<and> json r = Inr j \<and> get_prop (Some j) ''setup'' = Inr a
          \<and> interpolate a = Inr S \<and> get_prop (Some j) ''punchline'' = Inl e
      \<or> outcome = Resolves r \<and> ok r \<and> json r = Inr j \<and> get_prop (Some j) ''setup'' = Inr a
          \<and> interpolate a = Inr S \<and> get_prop (Some j) ''punchline'' = Inr b
          \<and> interpolate b = Inl e"
    using that showNewJoke_try_throws [where s = ?s1] by (elim disjE conjE) simp_all
  then have failure: "fst (showNewJoke cfg outcome s) = Fulfilled
         \<and> display (snd (showNewJoke cfg outcome s)) jokeTextContainer = TextContent joke_failed"
    if "outcome = Rejects e
      \<or> outcome = Resolves r \<and> \<not> ok r
      \<or> outcome = Resolves r \<and> ok r \<and> json r = Inl e
      \<or> outcome = Resolves r \<and> ok r \<and> json r = Inr j \<and> get_prop (Some j) ''setup'' = Inl e
      \<or> outcome = Resolves r \<and> ok r \<and> json r = Inr j \<and> get_prop (Some j) ''setup'' = Inr a
          \<and> interpolate a = Inl e
      \<or> outcome = Resolves r \<and> ok r \<and> json r = Inr j \<and> get_prop (Some j) ''setup'' = Inr a
          \<and> interpolate a = Inr S \<and> get_prop (Some j) ''punchline'' = Inl e
      \<or> outcome = Resolves r \<and> ok r \<and> json r = Inr j \<and> get_prop (Some j) ''setup'' = Inr a
          \<and> interpolate a = Inr S \<and> get_prop (Some j) ''punchline'' = Inr b
          \<and> interpolate b = Inl e"
    using that showNewJoke_throws [of outcome cfg s] by blast
  have success: "fst (showNewJoke cfg outcome s) = Fulfilled
         \<and> display (snd (showNewJoke cfg outcome s)) jokeTextContainer = InnerHTML (joke_markup S P)"
    if "outcome = Resolves r \<and> ok r \<and> json r = Inr j \<and> get_prop (Some j) ''setup'' = Inr a
       \<and> interpolate a = Inr S \<and> get_prop (Some j) ''punchline'' = Inr b \<and> interpolate b = Inr P"
    using that showNewJoke_try_writes [of r j a S b P ?s1] showNewJoke_writes [of outcome cfg s]
    by simp
  show ?thesis
    using failure success
    by (simp add: joke_failed_def joke_markup_text interpolate_undefined interpolate_string
          interpolate_toString_member [unfolded cannot_convert_def TypeError_def]
          cannot_read_def TypeError_def)
qed

theorem showNewJoke_failure_witness:
  \<open>display (snd (showNewJoke API_CONFIG (Rejects (TypeError ''Failed to fetch'')) page0)) jokeTextContainer
       = TextContent ''Oops! Couldn't fetch a joke. Please try again.''
   \<and> \<not> ok (Response 500 (Inr JNull))
   \<and> display (snd (showNewJoke API_CONFIG (Resolves (Response 500 (Inr JNull))) page0)) jokeTextContainer
       = TextContent ''Oops! Couldn't fetch a joke. Please try again.''
   \<and> ok (Response 200 (Inl (JsError ''SyntaxError'' ''Unexpected end of JSON input'')))
   \<and> display (snd (showNewJoke API_CONFIG
        (Resolves (Response 200 (Inl (JsError ''SyntaxError'' ''Unexpected end of JSON input'')))) page0))
        jokeTextContainer = TextContent ''Oops! Couldn't fetch a joke. Please try again.''
   \<and> display (snd (showNewJoke API_CONFIG (Resolves (Response 200 (Inr JNull))) page0)) jokeTextContainer
       = TextContent ''Oops! Couldn't fetch a joke. Please try again.''
   \<and> ''toString'' \<in> fst ` set [(''toString'', JNum ''1'')]
   \<and> display (snd (showNewJoke API_CONFIG
        (Resolves (Response 200 (Inr (JObj [(''setup'', JObj [(''toString'', JNum ''1'')]),
                                             (''punchline'', JStr ''x'')])))) page0))
        jokeTextContainer = TextContent ''Oops! Couldn't fetch a joke. Please try again.''
   \<and> display (snd (showNewJoke API_CONFIG
        (Resolves (Response 200 (Inr (JObj [(''setup'', JStr ''x''),
                                             (''punchline'', JArr [JStr ''a'', JObj [(''toString'', JNum ''1'')]])]))))
        page0))
        jokeTextContainer = TextContent ''Oops! Couldn't fetch a joke. Please try again.''
   \<and> display (snd (showNewJoke API_CONFIG (Resolves (Response 200 (Inr (JObj [(''setup'', JStr ''Why?'')])))) page0))
        jokeTextContainer
       = InnerHTML ([CHR 0x0A] @ ''                        <p class="font-semibold">Why?</p>'' @
                    [CHR 0x0A] @ ''                        <p class="mt-2">undefined</p>'' @
                    [CHR 0x0A] @ ''                    '')\<close>
  using showNewJoke_failure [where outcome = "Rejects (TypeError ''Failed to fetch'')"
          and e = "TypeError ''Failed to fetch''" and cfg = API_CONFIG and s = page0]
        showNewJoke_failure [where outcome = "Resolves (Response 500 (Inr JNull))"
          and r = "Response 500 (Inr JNull)" and cfg = API_CONFIG and s = page0]
        showNewJoke_failure [where
          outcome = "Resolves (Response 200 (Inl (JsError ''SyntaxError'' ''Unexpected end of JSON input'')))"
          and r = "Response 200 (Inl (JsError ''SyntaxError'' ''Unexpected end of JSON input''))"
          and e = "JsError ''SyntaxError'' ''Unexpected end of JSON input''"
          and cfg = API_CONFIG and s = page0]
        showNewJoke_failure [where outcome = "Resolves (Response 200 (Inr JNull))"
          and r = "Response 200 (Inr JNull)" and j = JNull
          and e = "cannot_read ''null'' ''setup''" and cfg = API_CONFIG and s = page0]
        showNewJoke_failure [where
          outcome = "Resolves (Response 200 (Inr (JObj [(''setup'', JObj [(''toString'', JNum ''1'')]),
                                                        (''punchline'', JStr ''x'')])))"
          and r = "Response 200 (Inr (JObj [(''setup'', JObj [(''toString'', JNum ''1'')]),
                                            (''punchline'', JStr ''x'')]))"
          and j = "JObj [(''setup'', JObj [(''toString'', JNum ''1'')]), (''punchline'', JStr ''x'')]"
          and a = "Some (JObj [(''toString'', JNum ''1'')])"
          and e = cannot_convert and cfg = API_CONFIG and s = page0
          and ms = "[(''toString'', JNum ''1'')]"]
        showNewJoke_failure [where
          outcome = "Resolves (Response 200 (Inr (JObj [(''setup'', JStr ''x''),
                       (''punchline'', JArr [JStr ''a'', JObj [(''toString'', JNum ''1'')]])])))"
          and r = "Response 200 (Inr (JObj [(''setup'', JStr ''x''),
                       (''punchline'', JArr [JStr ''a'', JObj [(''toString'', JNum ''1'')]])]))"
          and j = "JObj [(''setup'', JStr ''x''),
                       (''punchline'', JArr [JStr ''a'', JObj [(''toString'', JNum ''1'')]])]"
          and a = "Some (JStr ''x'')" and S = "''x''"
          and b = "Some (JArr [JStr ''a'', JObj [(''toString'', JNum ''1'')]])"
          and e = cannot_convert and cfg = API_CONFIG and s = page0]
        showNewJoke_failure [where
          outcome = "Resolves (Response 200 (Inr (JObj [(''setup'', JStr ''Why?'')])))"
          and r = "Response 200 (Inr (JObj [(''setup'', JStr ''Why?'')]))"
          and j = "JObj [(''setup'', JStr ''Why?'')]"
          and a = "Some (JStr ''Why?'')" and S = "''Why?''" and b = None and P = "''undefined''"
          and cfg = API_CONFIG and s = page0]
  by (simp add: ok_def interpolate_def cannot_read_def cannot_convert_def)

subsection \<open>What a failure shows\<close>







subsection \<open>The feedback button\<close>

lemma insort_key_snoc:
  "f y \<le> f x \<Longrightarrow> insort_key f y (zs @ [x]) = insort_key f y zs @ [x]"
  by (induction zs) auto

lemma sort_key_snoc_max:
  "\<forall>y \<in> set xs. f y \<le> f x \<Longrightarrow> sort_key f (xs @ [x]) = sort_key f xs @ [x]"
proof (induction xs)
  case Nil
  then show ?case by simp
next
  case (Cons y ys)
  then have "sort_key f (ys @ [x]) = sort_key f ys @ [x]" and "f y \<le> f x"
    by simp_all
  then show ?case
    by (simp add: insort_key_snoc)
qed

lemma textContent_timer_callback [simp]:
  "funnyButton_textContent (timer_callback originalText s) = originalText"
  by (simp add: timer_callback_def)

lemma handleFunnyButtonClick_fields:
  "timers (handleFunnyButtonClick s) = timers s @ [(now s + 1500, funnyButton_textContent s)]"
  "now (handleFunnyButtonClick s) = now s"
  "funnyButton_textContent (handleFunnyButtonClick s) = haha"
  by (simp_all add: handleFunnyButtonClick_def setTimeout_def Let_def)

lemma callbacks_keep_clock:
  "now (fold (\<lambda>x. timer_callback (snd x)) xs s) = now s
   \<and> timers (fold (\<lambda>x. timer_callback (snd x)) xs s) = timers s"
  by (induction xs arbitrary: s) (simp_all add: timer_callback_def)

lemma elapse_fields:
  "now (elapse d s) = now s + d"
  "timers (elapse d s) = filter (\<lambda>x. \<not> fst x \<le> now s + d) (timers s)"
  by (simp_all add: elapse_def Let_def callbacks_keep_clock)

lemma elapse_last_timer:
  assumes "timers s = pre @ [(now s + d, originalText)] @ post" and "\<forall>x \<in> set post. now s + d < fst x"
  shows "funnyButton_textContent (elapse d s) = originalText"
proof -
  let ?t = "now s + d"
  have "filter (\<lambda>x. fst x \<le> ?t) post = []"
    using assms(2) by (auto simp: filter_empty_conv)
  then have "filter (\<lambda>x. fst x \<le> ?t) (timers s) = filter (\<lambda>x. fst x \<le> ?t) pre @ [(?t, originalText)]"
    using assms(1) by simp
  moreover have "sort_key fst (filter (\<lambda>x. fst x \<le> ?t) pre @ [(?t, originalText)])
                   = sort_key fst (filter (\<lambda>x. fst x \<le> ?t) pre) @ [(?t, originalText)]"
    by (rule sort_key_snoc_max) simp
  ultimately show ?thesis
    by (simp add: elapse_def Let_def)
qed

lemma awaiting_timer_click:
  assumes "awaiting_timer T originalText s"
  shows "awaiting_timer T originalText (handleFunnyButtonClick s)"
proof -
  from assms obtain pre post where
    t: "timers s = pre @ [(T, originalText)] @ post" and later: "\<forall>x \<in> set post. T < fst x"
    and bounds: "now s < T" "T < now s + 1500"
    by (auto simp: awaiting_timer_def)
  let ?post = "post @ [(now s + 1500, funnyButton_textContent s)]"
  have "timers (handleFunnyButtonClick s) = pre @ [(T, originalText)] @ ?post"
    using t by (simp add: handleFunnyButtonClick_fields)
  moreover have "\<forall>x \<in> set ?post. T < fst x"
    using later bounds by simp
  ultimately show ?thesis
    using bounds unfolding awaiting_timer_def handleFunnyButtonClick_fields by blast
qed

lemma awaiting_timer_elapse:
  assumes "awaiting_timer T originalText s" and "now s + d < T"
  shows "awaiting_timer T originalText (elapse d s)"
proof -
  from assms obtain pre post where
    t: "timers s = pre @ [(T, originalText)] @ post" and later: "\<forall>x \<in> set post. T < fst x"
    and bounds: "now s < T" "T < now s + 1500"
    by (auto simp: awaiting_timer_def)
  let ?keep = "\<lambda>x :: nat \<times> string. \<not> fst x \<le> now s + d"
  have "filter ?keep post = post"
    using later assms(2) by (auto simp: filter_id_conv)
  then have "timers (elapse d s) = filter ?keep pre @ [(T, originalText)] @ post"
    using t assms(2) by (simp add: elapse_fields)
  then show ?thesis
    using later bounds assms(2) unfolding awaiting_timer_def elapse_fields by auto
qed

lemma awaiting_timer_run:
  "awaiting_timer T originalText s \<Longrightarrow> now s + duration evs < T \<Longrightarrow>
     awaiting_timer T originalText (run evs s) \<and> now (run evs s) = now s + duration evs"
proof (induction evs arbitrary: s)
  case Nil
  then show ?case by (simp add: run_def)
next
  case (Cons ev evs)
  show ?case
  proof (cases ev)
    case Click
    with Cons.prems have "awaiting_timer T originalText (handleFunnyButtonClick s)"
      and "now (handleFunnyButtonClick s) + duration evs < T"
      by (simp_all add: awaiting_timer_click handleFunnyButtonClick_fields)
    from Cons.IH [OF this] show ?thesis
      using Click by (simp add: run_def handleFunnyButtonClick_fields)
  next
    case (Elapse d)
    with Cons.prems have "awaiting_timer T originalText (elapse d s)"
      and "now (elapse d s) + duration evs < T"
      by (simp_all add: awaiting_timer_elapse elapse_fields)
    from Cons.IH [OF this] show ?thesis
      using Elapse by (simp add: run_def elapse_fields)
  qed
qed

lemma awaiting_timer_fires:
  assumes "awaiting_timer T originalText s"
  shows "funnyButton_textContent (elapse (T - now s) s) = originalText"
proof -
  from assms obtain pre post where
    "timers s = pre @ [(T, originalText)] @ post" and "\<forall>x \<in> set post. T < fst x" and "now s < T"
    by (auto simp: awaiting_timer_def)
  then show ?thesis
    using elapse_last_timer [of s pre "T - now s" originalText post] by simp
qed

lemma awaiting_timer_after_click:
  assumes "0 < d" and "d < 1500"
  shows "awaiting_timer (now s + 1500) (funnyButton_textContent s) (elapse d (handleFunnyButtonClick s))"
proof -
  let ?keep = "\<lambda>x :: nat \<times> string. \<not> fst x \<le> now s + d"
  have "timers (elapse d (handleFunnyButtonClick s))
          = filter ?keep (timers s) @ [(now s + 1500, funnyButton_textContent s)] @ []"
    using assms by (simp add: elapse_fields handleFunnyButtonClick_fields)
  then have "\<exists>pre post. timers (elapse d (handleFunnyButtonClick s))
                 = pre @ [(now s + 1500, funnyButton_textContent s)] @ post
               \<and> (\<forall>x \<in> set post. now s + 1500 < fst x)"
    by (intro exI [of _ "filter ?keep (timers s)"] exI [of _ "[]"]) simp
  then show ?thesis
    using assms unfolding awaiting_timer_def
    by (simp add: elapse_fields handleFunnyButtonClick_fields)
qed

text \<open>
  C10. A call of \<^verbatim>\<open>handleFunnyButtonClick\<close> in any state sets one timer, due 1500 ms later,
  that holds the label the button had at the call. Whatever the state in which the
  callback of that timer runs, it leaves the button with that label. So 1500 ms after a
  call the label is the one the button had at the call, whatever other timers were
  pending; and the same holds when clicks and waits come in between, as long as they
  come after some time has passed and take less than the 1500 ms.
\<close>

theorem handleFunnyButtonClick_restores_captured:
  "timers (handleFunnyButtonClick s) = timers s @ [(now s + 1500, funnyButton_textContent s)]
   \<and> funnyButton_textContent (timer_callback (snd (last (timers (handleFunnyButtonClick s)))) s')
       = funnyButton_textContent s
   \<and> funnyButton_textContent (elapse 1500 (handleFunnyButtonClick s)) = funnyButton_textContent s
   \<and> (0 < d \<and> d + duration evs < 1500 \<longrightarrow>
        funnyButton_textContent
          (elapse (1500 - (d + duration evs)) (run (Elapse d # evs) (handleFunnyButtonClick s)))
        = funnyButton_textContent s)"
proof -
  have "funnyButton_textContent
          (elapse (1500 - (d + duration evs)) (run (Elapse d # evs) (handleFunnyButtonClick s)))
        = funnyButton_textContent s"
    if d: "0 < d" "d + duration evs < 1500"
  proof -
    let ?s1 = "elapse d (handleFunnyButtonClick s)"
    have s1: "awaiting_timer (now s + 1500) (funnyButton_textContent s) ?s1"
      using d by (simp add: awaiting_timer_after_click)
    have "now ?s1 + duration evs < now s + 1500"
      using d by (simp add: elapse_fields handleFunnyButtonClick_fields)
    from awaiting_timer_run [OF s1 this]
    have a: "awaiting_timer (now s + 1500) (funnyButton_textContent s) (run evs ?s1)"
      and n: "now (run evs ?s1) = now s + d + duration evs"
      by (simp_all add: elapse_fields handleFunnyButtonClick_fields)
    from awaiting_timer_fires [OF a] n d show ?thesis
      by (simp add: run_def)
  qed
  moreover have "funnyButton_textContent (elapse 1500 (handleFunnyButtonClick s))
                   = funnyButton_textContent s"
    using elapse_last_timer [of "handleFunnyButtonClick s" "timers s" 1500
            "funnyButton_textContent s" "[]"]
    by (simp add: handleFunnyButtonClick_fields)
  ultimately show ?thesis
    by (simp add: handleFunnyButtonClick_fields)
qed

theorem handleFunnyButtonClick_restores_captured_witness:
  "(0::nat) < 500 \<and> 500 + duration [Click, Elapse 300, Click] < 1500
   \<and> funnyButton_textContent
       (elapse 700 (run [Elapse 500, Click, Elapse 300, Click] (handleFunnyButtonClick page0)))
     = ''Funny!''
   \<and> funnyButton_textContent (elapse 1500 (handleFunnyButtonClick page0)) = ''Funny!''"
  using handleFunnyButtonClick_restores_captured [of page0 page0 500 "[Click, Elapse 300, Click]"]
  by (simp add: page0_def)

lemma haha_not_Funny: "haha \<noteq> ''Funny!''"
  by (simp add: haha_def)

text \<open>
  C1 on a run with a second click. The page starts idle, the button labelled \<^verbatim>\<open>Funny!\<close>.
  A click gives the acknowledgment and dims the button. A second click 500 ms later is
  not blocked: it sets a second timer, which holds the acknowledgment as the label to
  restore. At 1500 ms the first timer restores \<^verbatim>\<open>Funny!\<close> and removes the dimming; at 2000 ms
  the second timer writes the acknowledgment back, and with no timer left the button keeps
  it.
\<close>

theorem funnyButton_reclick_sticks:
  "funnyButton_textContent page0 = ''Funny!'' \<and> timers page0 = [] \<and> \<not> dimmed page0
   \<and> funnyButton_textContent (run [Click] page0) = haha \<and> dimmed (run [Click] page0)
   \<and> timers (run [Click, Elapse 500] page0) = [(1500, ''Funny!'')]
   \<and> timers (run [Click, Elapse 500, Click] page0) = [(1500, ''Funny!''), (2000, haha)]
   \<and> run [Click, Elapse 500, Click] page0 \<noteq> run [Click, Elapse 500] page0
   \<and> funnyButton_textContent (run [Click, Elapse 500, Click, Elapse 1000] page0) = ''Funny!''
   \<and> \<not> dimmed (run [Click, Elapse 500, Click, Elapse 1000] page0)
   \<and> timers (run [Click, Elapse 500, Click, Elapse 1000] page0) = [(2000, haha)]
   \<and> funnyButton_textContent (run [Click, Elapse 500, Click, Elapse 1000, Elapse 500] page0) = haha
   \<and> timers (run [Click, Elapse 500, Click, Elapse 1000, Elapse 500] page0) = []
   \<and> haha \<noteq> ''Funny!''"
proof -
  have t2: "timers (run [Click, Elapse 500, Click] page0) = [(1500, ''Funny!''), (2000, haha)]"
    by (simp add: run_def page0_def handleFunnyButtonClick_def setTimeout_def elapse_def Let_def
          timer_callback_def)
  have t1: "timers (run [Click, Elapse 500] page0) = [(1500, ''Funny!'')]"
    by (simp add: run_def page0_def handleFunnyButtonClick_def setTimeout_def elapse_def Let_def
          timer_callback_def)
  from t1 t2 have neq: "run [Click, Elapse 500, Click] page0 \<noteq> run [Click, Elapse 500] page0"
    by (metis list.inject not_Cons_self2)
  show ?thesis
    using neq t1 t2
    by (simp add: run_def page0_def handleFunnyButtonClick_def setTimeout_def elapse_def Let_def
          timer_callback_def dimmed_def classList_add_def classList_remove_def haha_def)
qed

text \<open>
  What holds of a single click: from an idle button (no timer pending, not dimmed) the
  click gives the acknowledgment and dims the button, they stay for any wait shorter than
  1500 ms, and after 1500 ms the state is the one before the click, the clock apart.
\<close>

lemma funnyButton_single_activation:
  assumes "timers s = []"
    and "''cursor-not-allowed'' \<notin> set (classList s funnyButton)"
    and "''opacity-50'' \<notin> set (classList s funnyButton)"
  shows "funnyButton_textContent (handleFunnyButtonClick s) = haha
       \<and> dimmed (handleFunnyButtonClick s)
       \<and> (d < 1500 \<longrightarrow> funnyButton_textContent (elapse d (handleFunnyButtonClick s)) = haha
                        \<and> dimmed (elapse d (handleFunnyButtonClick s)))
       \<and> elapse 1500 (handleFunnyButtonClick s) = s\<lparr> now := now s + 1500 \<rparr>"
proof -
  have "filter (\<lambda>x. x \<noteq> ''cursor-not-allowed'' \<and> x \<noteq> ''opacity-50'') (classList s funnyButton)
          = classList s funnyButton"
    using assms(2,3) by (auto simp: filter_id_conv)
  then show ?thesis
    using assms
    by (simp add: handleFunnyButtonClick_def setTimeout_def elapse_def Let_def
          timer_callback_def dimmed_def classList_add_def classList_remove_def)
qed

end
